theory Spec2Isabelle
  imports Complex_Main
begin

section \<open>JavaScript values used by the analysis code\<close>

text \<open>
  A JavaScript \<^verbatim>\<open>number\<close> is modelled as \<open>NaN\<close>, one of the two infinities, or a
  finite value, which is kept as an exact rational. \<open>NaN\<close> and the infinities follow the
  rules of the language: every comparison with \<open>NaN\<close> is false, an operation on \<open>NaN\<close>
  gives \<open>NaN\<close>, and the difference of two equal infinities is \<open>NaN\<close>. Arithmetic on
  finite values is exact: the rounding of a result to the nearest double, its overflow
  to an infinity, and the sign of zero are outside the model.
\<close>

datatype jsnum = NaN | Fin rat | PInf | NInf

definition js_abs :: "jsnum \<Rightarrow> jsnum" where
  "js_abs a = (case a of NaN \<Rightarrow> NaN | Fin x \<Rightarrow> Fin \<bar>x\<bar> | PInf \<Rightarrow> PInf | NInf \<Rightarrow> PInf)"

definition js_sub :: "jsnum \<Rightarrow> jsnum \<Rightarrow> jsnum" where
  "js_sub a b =
     (case a of
        NaN \<Rightarrow> NaN
      | Fin x \<Rightarrow> (case b of NaN \<Rightarrow> NaN | Fin y \<Rightarrow> Fin (x - y) | PInf \<Rightarrow> NInf | NInf \<Rightarrow> PInf)
      | PInf \<Rightarrow> (case b of NaN \<Rightarrow> NaN | Fin y \<Rightarrow> PInf | PInf \<Rightarrow> NaN | NInf \<Rightarrow> PInf)
      | NInf \<Rightarrow> (case b of NaN \<Rightarrow> NaN | Fin y \<Rightarrow> NInf | PInf \<Rightarrow> NInf | NInf \<Rightarrow> NaN))"

text \<open>
  Division. A zero divisor is taken as positive zero; the source only divides by the
  literals 100 and 2.0.
\<close>

definition js_div :: "jsnum \<Rightarrow> jsnum \<Rightarrow> jsnum" where
  "js_div a b =
     (case a of
        NaN \<Rightarrow> NaN
      | Fin x \<Rightarrow>
          (case b of
             NaN \<Rightarrow> NaN
           | Fin y \<Rightarrow> (if y \<noteq> 0 then Fin (x / y)
                       else if 0 < x then PInf else if x < 0 then NInf else NaN)
           | PInf \<Rightarrow> Fin 0
           | NInf \<Rightarrow> Fin 0)
      | PInf \<Rightarrow> (case b of NaN \<Rightarrow> NaN | Fin y \<Rightarrow> (if 0 \<le> y then PInf else NInf)
                   | PInf \<Rightarrow> NaN | NInf \<Rightarrow> NaN)
      | NInf \<Rightarrow> (case b of NaN \<Rightarrow> NaN | Fin y \<Rightarrow> (if 0 \<le> y then NInf else PInf)
                   | PInf \<Rightarrow> NaN | NInf \<Rightarrow> NaN))"

text \<open>\<^verbatim>\<open>Math.min\<close>: \<open>NaN\<close> as soon as one argument is \<open>NaN\<close>.\<close>

definition js_min :: "jsnum \<Rightarrow> jsnum \<Rightarrow> jsnum" where
  "js_min a b =
     (case a of
        NaN \<Rightarrow> NaN
      | Fin x \<Rightarrow> (case b of NaN \<Rightarrow> NaN | Fin y \<Rightarrow> Fin (min x y) | PInf \<Rightarrow> Fin x | NInf \<Rightarrow> NInf)
      | PInf \<Rightarrow> b
      | NInf \<Rightarrow> (case b of NaN \<Rightarrow> NaN | Fin y \<Rightarrow> NInf | PInf \<Rightarrow> NInf | NInf \<Rightarrow> NInf))"

text \<open>The relational operators: false as soon as one operand is \<open>NaN\<close>.\<close>

definition js_ge :: "jsnum \<Rightarrow> jsnum \<Rightarrow> bool" where
  "js_ge a b =
     (case a of
        NaN \<Rightarrow> False
      | Fin x \<Rightarrow> (case b of NaN \<Rightarrow> False | Fin y \<Rightarrow> x \<ge> y | PInf \<Rightarrow> False | NInf \<Rightarrow> True)
      | PInf \<Rightarrow> (case b of NaN \<Rightarrow> False | Fin y \<Rightarrow> True | PInf \<Rightarrow> True | NInf \<Rightarrow> True)
      | NInf \<Rightarrow> (case b of NaN \<Rightarrow> False | Fin y \<Rightarrow> False | PInf \<Rightarrow> False | NInf \<Rightarrow> True))"

definition js_le :: "jsnum \<Rightarrow> jsnum \<Rightarrow> bool" where
  "js_le a b =
     (case a of
        NaN \<Rightarrow> False
      | Fin x \<Rightarrow> (case b of NaN \<Rightarrow> False | Fin y \<Rightarrow> x \<le> y | PInf \<Rightarrow> True | NInf \<Rightarrow> False)
      | PInf \<Rightarrow> (case b of NaN \<Rightarrow> False | Fin y \<Rightarrow> False | PInf \<Rightarrow> True | NInf \<Rightarrow> False)
      | NInf \<Rightarrow> (case b of NaN \<Rightarrow> False | Fin y \<Rightarrow> True | PInf \<Rightarrow> True | NInf \<Rightarrow> True))"

definition js_gt :: "jsnum \<Rightarrow> jsnum \<Rightarrow> bool" where
  "js_gt a b =
     (case a of
        NaN \<Rightarrow> False
      | Fin x \<Rightarrow> (case b of NaN \<Rightarrow> False | Fin y \<Rightarrow> x > y | PInf \<Rightarrow> False | NInf \<Rightarrow> True)
      | PInf \<Rightarrow> (case b of NaN \<Rightarrow> False | Fin y \<Rightarrow> True | PInf \<Rightarrow> False | NInf \<Rightarrow> True)
      | NInf \<Rightarrow> False)"

text \<open>
  Truthiness of an optional boolean property: an absent property is \<^verbatim>\<open>undefined\<close>,
  which is falsy.
\<close>

definition truthy :: "bool option \<Rightarrow> bool" where
  "truthy b = (b = Some True)"

text \<open>Truthiness of a string that may be \<^verbatim>\<open>undefined\<close>: falsy when undefined or empty.\<close>

definition truthyStr :: "string option \<Rightarrow> bool" where
  "truthyStr s = (case s of None \<Rightarrow> False | Some t \<Rightarrow> t \<noteq> [])"

text \<open>Reading an array element: \<^verbatim>\<open>undefined\<close> out of range.\<close>

definition elemAt :: "'a list \<Rightarrow> nat \<Rightarrow> 'a option" where
  "elemAt xs i = (if i < length xs then Some (xs ! i) else None)"

text \<open>\<^verbatim>\<open>s.startsWith(p)\<close> and \<^verbatim>\<open>s.split(' ')\<close>.\<close>

definition startsWith :: "string \<Rightarrow> string \<Rightarrow> bool" where
  "startsWith s p = (take (length p) s = p)"

fun splitOn :: "char \<Rightarrow> string \<Rightarrow> string \<Rightarrow> string list" where
  "splitOn sep cur [] = [rev cur]"
| "splitOn sep cur (c # cs) =
     (if c = sep then rev cur # splitOn sep [] cs else splitOn sep (c # cur) cs)"

definition splitSpace :: "string \<Rightarrow> string list" where
  "splitSpace s = splitOn (CHR '' '') [] s"

text \<open>
  \<^verbatim>\<open>parseInt(x)\<close> without a radix: leading white space is skipped, then an optional sign,
  then an optional \<^verbatim>\<open>0x\<close> prefix that selects radix 16, then the longest run of digits;
  \<open>NaN\<close> when there is no digit, in particular for \<^verbatim>\<open>undefined\<close>. White space is the
  ASCII part of the language's definition. The result here is the exact integer that
  the digits denote, for a run of any length; JavaScript rounds it to the nearest
  double, which is an infinity once the integer exceeds the range of doubles (about
  1.8e308). What is proved below about numbers computed from parsed fields is therefore
  about fields whose integer a double holds exactly.
\<close>

definition isWhiteSpace :: "char \<Rightarrow> bool" where
  "isWhiteSpace c = (c \<in> set [CHR 0x09, CHR 0x0A, CHR 0x0B, CHR 0x0C, CHR 0x0D, CHR 0x20])"

definition decDigit :: "char \<Rightarrow> nat option" where
  "decDigit c = (let n = (of_char c :: nat) in if 48 \<le> n \<and> n \<le> 57 then Some (n - 48) else None)"

definition hexDigit :: "char \<Rightarrow> nat option" where
  "hexDigit c = (let n = (of_char c :: nat) in
     if 48 \<le> n \<and> n \<le> 57 then Some (n - 48)
     else if 97 \<le> n \<and> n \<le> 102 then Some (n - 87)
     else if 65 \<le> n \<and> n \<le> 70 then Some (n - 55)
     else None)"

fun digitRun :: "(char \<Rightarrow> nat option) \<Rightarrow> string \<Rightarrow> nat list" where
  "digitRun dv [] = []"
| "digitRun dv (c # cs) = (case dv c of None \<Rightarrow> [] | Some d \<Rightarrow> d # digitRun dv cs)"

definition digitsValue :: "nat \<Rightarrow> nat list \<Rightarrow> nat" where
  "digitsValue radix ds = foldl (\<lambda>a d. a * radix + d) 0 ds"

definition parseInt :: "string option \<Rightarrow> jsnum" where
  "parseInt arg = (case arg of None \<Rightarrow> NaN | Some s \<Rightarrow>
     (let s1 = dropWhile isWhiteSpace s;
          neg = (take 1 s1 = ''-'');
          s2 = (if take 1 s1 = ''+'' \<or> take 1 s1 = ''-'' then drop 1 s1 else s1);
          hex = (take 2 s2 = ''0x'' \<or> take 2 s2 = ''0X'');
          s3 = (if hex then drop 2 s2 else s2);
          ds = digitRun (if hex then hexDigit else decDigit) s3
      in if ds = [] then NaN
         else Fin (of_int ((if neg then - 1 else 1) * int (digitsValue (if hex then 16 else 10) ds)))))"

text \<open>Decimal text of an integer, as a template literal prints it.\<close>

fun showDigits :: "nat \<Rightarrow> nat \<Rightarrow> string" where
  "showDigits 0 n = []"
| "showDigits (Suc k) n =
     (if n < 10 then [char_of (48 + n)] else showDigits k (n div 10) @ [char_of (48 + n mod 10)])"

definition showNat :: "nat \<Rightarrow> string" where
  "showNat n = showDigits (Suc n) n"

definition showInt :: "int \<Rightarrow> string" where
  "showInt i = (if i < 0 then CHR ''-'' # showNat (nat (- i)) else showNat (nat i))"

section \<open>The suggestion handed to the user interface (gemini-chess-ai)\<close>

text \<open>
  \<^verbatim>\<open>AIMoveSuggestion\<close>, with the properties that carry the move and the numbers:
  \<open>move\<close>, \<open>confidence\<close>, \<open>evaluation\<close> and, for each alternative, its move and its
  evaluation. The properties that hold display text (\<^verbatim>\<open>reasoning\<close>, \<^verbatim>\<open>patterns\<close>,
  \<^verbatim>\<open>opening\<close>, \<^verbatim>\<open>endgame\<close>, \<^verbatim>\<open>theoreticalMoves\<close>, \<^verbatim>\<open>bookMoves\<close>) are left out. A move
  copied from a search result can be \<^verbatim>\<open>undefined\<close>.
\<close>

record AIMoveSuggestion =
  move :: "string option"
  confidence :: jsnum
  evaluation :: jsnum
  alternatives :: "(string option \<times> jsnum) list"

section \<open>Results of a search and of a game analysis (src/lib/stockfish.ts)\<close>

text \<open>
  \<^verbatim>\<open>AnalysisResult\<close>. \<open>bestMove\<close> can be \<^verbatim>\<open>undefined\<close> (a \<^verbatim>\<open>bestmove\<close> line without a
  second token), \<open>mate\<close> is an optional property.
\<close>

record AnalysisResult =
  bestMove :: "string option"
  evaluation :: jsnum
  depth :: jsnum
  nodes :: jsnum
  time :: nat
  pv :: "string list"
  mate :: "jsnum option"

text \<open>The object returned by \<^verbatim>\<open>classifyMove\<close>: five optional flags.\<close>

record Classification =
  blunder :: "bool option"
  mistake :: "bool option"
  inaccuracy :: "bool option"
  brilliant :: "bool option"
  best :: "bool option"

text \<open>\<^verbatim>\<open>PositionAnalysis\<close>: the flags of the classification are spread into it.\<close>

record PositionAnalysis = Classification +
  fen :: string
  move :: string
  analysis :: "AnalysisResult list"

definition noFlags :: Classification where
  "noFlags = \<lparr>blunder = None, mistake = None, inaccuracy = None, brilliant = None, best = None\<rparr>"

definition classifyMove :: "jsnum \<Rightarrow> nat \<Rightarrow> Classification" where
  "classifyMove ev moveIndex =
     (let absEval = js_abs ev in
      if js_ge absEval (Fin 3) then noFlags\<lparr>blunder := Some True\<rparr>
      else if js_ge absEval (Fin (3 / 2)) then noFlags\<lparr>mistake := Some True\<rparr>
      else if js_ge absEval (Fin (1 / 2)) then noFlags\<lparr>inaccuracy := Some True\<rparr>
      else if js_le absEval (Fin (1 / 10)) then noFlags\<lparr>best := Some True\<rparr>
      else if js_le absEval (Fin (2 / 10)) \<and> moveIndex > 10 then noFlags\<lparr>brilliant := Some True\<rparr>
      else noFlags)"

text \<open>The flags of a classification that are set, in the order of the record.\<close>

definition flagsSet :: "'a Classification_scheme \<Rightarrow> string list" where
  "flagsSet c =
     (if truthy (blunder c) then [''blunder''] else []) @
     (if truthy (mistake c) then [''mistake''] else []) @
     (if truthy (inaccuracy c) then [''inaccuracy''] else []) @
     (if truthy (brilliant c) then [''brilliant''] else []) @
     (if truthy (best c) then [''best''] else [])"

section \<open>The engine client (class StockfishEngine)\<close>

text \<open>
  What the engine sends during one search: the messages in the order of their arrival,
  each with its arrival time in milliseconds after the start of the search. The engine
  is a collaborator of the code, so its output is an input of the model.
\<close>

type_synonym arrivals = "(nat \<times> string) list"

text \<open>
  The client. \<open>engine\<close> is \<^verbatim>\<open>undefined\<close> until a worker has been created; \<open>posted\<close>
  records the commands passed to \<^verbatim>\<open>postMessage\<close>, oldest first.
\<close>

record StockfishEngine =
  engine :: "unit option"
  version :: string
  isReady :: bool
  posted :: "string list"

datatype error = TypeError | ChessError

definition newStockfishEngine :: "string \<Rightarrow> StockfishEngine" where
  "newStockfishEngine v = \<lparr>engine = None, version = v, isReady = False, posted = []\<rparr>"

definition postMessage :: "StockfishEngine \<Rightarrow> string \<Rightarrow> StockfishEngine" where
  "postMessage c cmd = c\<lparr>posted := posted c @ [cmd]\<rparr>"

text \<open>
  \<^verbatim>\<open>initialize()\<close>. \<open>found\<close> says whether one of the three loading methods yields the
  engine's constructor, which then creates a worker; when none does, the error is caught
  and the client is marked not ready, its \<open>engine\<close> left as it was.
\<close>

definition initialize :: "bool \<Rightarrow> StockfishEngine \<Rightarrow> StockfishEngine" where
  "initialize found c =
     (let c1 = (if found then c\<lparr>engine := Some (), isReady := True\<rparr> else c\<lparr>isReady := False\<rparr>)
      in if isReady c1 \<and> engine c1 \<noteq> None
         then foldl postMessage c1
                [''uci'', ''setoption name Threads value 4'', ''setoption name Hash value 256'',
                 ''setoption name Ponder value false'', ''ucinewgame'']
         else c1)"

text \<open>
  The loop over the tokens of an \<^verbatim>\<open>info\<close> line. The variables of the closure
  (\<^verbatim>\<open>bestMove\<close>, \<^verbatim>\<open>evaluation\<close>, \<^verbatim>\<open>depthReached\<close>, \<^verbatim>\<open>nodes\<close>, \<^verbatim>\<open>pv\<close>, \<^verbatim>\<open>mate\<close>) are kept in
  a record of the result's shape, \<open>depth\<close> holding \<^verbatim>\<open>depthReached\<close>. The first argument
  of \<open>parseInfo\<close> holds them, the second is \<^verbatim>\<open>parts\<close> from index \<^verbatim>\<open>i\<close> on.
\<close>

fun parseInfo :: "AnalysisResult \<Rightarrow> string list \<Rightarrow> AnalysisResult" where
  "parseInfo acc [] = acc"
| "parseInfo acc (p # rest) =
     (if p = ''depth'' then parseInfo (acc\<lparr>depth := parseInt (elemAt rest 0)\<rparr>) rest
      else if p = ''nodes'' then parseInfo (acc\<lparr>nodes := parseInt (elemAt rest 0)\<rparr>) rest
      else if p = ''score'' then
        (if elemAt rest 0 = Some ''mate'' then
           (let m = parseInt (elemAt rest 1) in
            parseInfo (acc\<lparr>mate := Some m,
                           evaluation := (if js_gt m (Fin 0) then js_sub (Fin 10000) m
                                          else js_sub (Fin (- 10000)) m)\<rparr>) rest)
         else if elemAt rest 0 = Some ''cp'' then
           parseInfo (acc\<lparr>evaluation := js_div (parseInt (elemAt rest 1)) (Fin 100)\<rparr>) rest
         else parseInfo acc rest)
      else if p = ''pv'' then acc\<lparr>pv := rest\<rparr>
      else parseInfo acc rest)"

text \<open>How a search ended: which of the three calls of \<^verbatim>\<open>resolve\<close> came first.\<close>

datatype stop = BestMove | DepthReached | Timeout

text \<open>
  The message handler, run on the arrivals in order until the promise is resolved. A
  message that arrives at or after the time limit finds the promise already resolved by
  the timer. The result pairs the arrival time of the resolving event with the variables
  of the closure at that moment.
\<close>

fun listen :: "int \<Rightarrow> nat \<Rightarrow> AnalysisResult \<Rightarrow> arrivals \<Rightarrow> stop \<times> nat \<times> AnalysisResult" where
  "listen depthLimit timeLimit acc [] = (Timeout, timeLimit, acc)"
| "listen depthLimit timeLimit acc ((t, message) # rest) =
     (if t \<ge> timeLimit then (Timeout, timeLimit, acc)
      else if startsWith message ''bestmove''
        then (BestMove, t, acc\<lparr>bestMove := elemAt (splitSpace message) 1\<rparr>)
      else if startsWith message ''info'' then
        (let acc1 = parseInfo acc (splitSpace message) in
         if js_ge (depth acc1) (Fin (of_int depthLimit)) then (DepthReached, t, acc1)
         else listen depthLimit timeLimit acc1 rest)
      else listen depthLimit timeLimit acc rest)"

definition initialProgress :: AnalysisResult where
  "initialProgress = \<lparr>bestMove = Some [], evaluation = Fin 0, depth = Fin 0, nodes = Fin 0,
                       time = 0, pv = [], mate = None\<rparr>"

text \<open>
  \<^verbatim>\<open>analyzePosition(fen, depth, time)\<close>. With \<open>engine\<close> undefined the assignment to
  \<^verbatim>\<open>this.engine.onmessage\<close> throws inside the promise's executor, which rejects the
  promise with a \<^verbatim>\<open>TypeError\<close>. The client is returned with the result, since the call
  may initialise it and posts commands.
\<close>

definition analyzePosition ::
  "bool \<Rightarrow> arrivals \<Rightarrow> StockfishEngine \<Rightarrow> string \<Rightarrow> int \<Rightarrow> nat
     \<Rightarrow> (error + AnalysisResult) \<times> StockfishEngine" where
  "analyzePosition found arr c fenStr depthLimit timeLimit =
     (let c1 = (if \<not> isReady c then initialize found c else c) in
      if engine c1 = None then (Inl TypeError, c1)
      else
        (let c2 = postMessage (postMessage c1 (''position fen '' @ fenStr))
                    (''go depth '' @ showInt depthLimit);
             (why, t, acc) = listen depthLimit timeLimit initialProgress arr;
             c3 = (if why = BestMove then c2 else postMessage c2 ''stop'')
         in (Inr (acc\<lparr>time := t\<rparr>), c3)))"

text \<open>\<^verbatim>\<open>terminate()\<close>.\<close>

definition terminate :: "StockfishEngine \<Rightarrow> StockfishEngine" where
  "terminate c = (if engine c \<noteq> None then (postMessage c ''quit'')\<lparr>isReady := False\<rparr> else c)"

section \<open>The notation library (chess.js)\<close>

text \<open>
  The code uses the library as an opaque capability, so it is a parameter of the model:
  a record of the operations the code calls, over a type \<open>'p\<close> of states of a
  \<^verbatim>\<open>Chess\<close> object. \<open>None\<close> stands for the exception the library throws.
  \<^item> \<open>ch_load fen\<close>: \<^verbatim>\<open>new Chess(fen)\<close>;
  \<^item> \<open>ch_loadPgn pgn\<close>: \<^verbatim>\<open>new Chess()\<close> followed by \<^verbatim>\<open>loadPgn(pgn)\<close>;
  \<^item> \<open>ch_reset\<close>: the state after \<^verbatim>\<open>reset()\<close>, the standard starting position;
  \<^item> \<open>ch_history\<close>: the \<^verbatim>\<open>san\<close> of each move of \<^verbatim>\<open>history({ verbose: true })\<close>;
  \<^item> \<open>ch_fen\<close>: \<^verbatim>\<open>fen()\<close>; \<open>ch_move\<close>: \<^verbatim>\<open>move(san)\<close>; \<open>ch_turn\<close>: \<^verbatim>\<open>turn()\<close>;
  \<^item> \<open>ch_moves\<close>: the \<^verbatim>\<open>san\<close> of each move of \<^verbatim>\<open>moves({ verbose: true })\<close>;
  \<^item> \<open>ch_board\<close>: \<^verbatim>\<open>board()\<close>, eight rows of eight squares.
\<close>

datatype PieceSymbol = Pawn | Knight | Bishop | Rook | Queen | King

datatype Color = White | Black

record Piece =
  ptype :: PieceSymbol
  color :: Color

record 'p Chess =
  ch_load :: "string \<Rightarrow> 'p option"
  ch_loadPgn :: "string \<Rightarrow> 'p option"
  ch_reset :: "'p"
  ch_history :: "'p \<Rightarrow> string list"
  ch_fen :: "'p \<Rightarrow> string"
  ch_move :: "'p \<Rightarrow> string \<Rightarrow> 'p option"
  ch_moves :: "'p \<Rightarrow> string list"
  ch_board :: "'p \<Rightarrow> Piece option list list"
  ch_turn :: "'p \<Rightarrow> Color"

section \<open>Sweeps over a position and over a game (class StockfishEngine)\<close>

text \<open>
  \<^verbatim>\<open>getTopMoves(fen, numMoves)\<close>. \<open>io i\<close> is what the engine sends during the search
  of iteration \<open>i\<close>. The loop of the source runs \<^verbatim>\<open>i\<close> from 0; here \<open>i\<close> counts up and
  the fifth argument counts the iterations that remain.
\<close>

fun getTopMovesLoop ::
  "'p Chess \<Rightarrow> bool \<Rightarrow> (nat \<Rightarrow> arrivals) \<Rightarrow> string \<Rightarrow> nat \<Rightarrow> nat \<Rightarrow> AnalysisResult list
     \<Rightarrow> StockfishEngine \<Rightarrow> (error + AnalysisResult list) \<times> StockfishEngine" where
  "getTopMovesLoop chess found io fenStr 0 i ms c = (Inr ms, c)"
| "getTopMovesLoop chess found io fenStr (Suc k) i ms c =
     (case analyzePosition found (io i) c fenStr 15 5000 of
        (Inl e, c1) \<Rightarrow> (Inl e, c1)
      | (Inr a, c1) \<Rightarrow>
          (if truthyStr (bestMove a) then
             (case ch_load chess fenStr of
                None \<Rightarrow> (Inl ChessError, c1)
              | Some pos \<Rightarrow>
                  (case ch_move chess pos (case bestMove a of Some bm \<Rightarrow> bm | None \<Rightarrow> []) of
                     None \<Rightarrow> (Inr (ms @ [a]), c1)
                   | Some pos1 \<Rightarrow>
                       getTopMovesLoop chess found io fenStr k (Suc i) (ms @ [a])
                         (postMessage c1 (''position fen '' @ fenStr))))
           else getTopMovesLoop chess found io fenStr k (Suc i) ms c1))"

definition getTopMoves ::
  "'p Chess \<Rightarrow> bool \<Rightarrow> (nat \<Rightarrow> arrivals) \<Rightarrow> StockfishEngine \<Rightarrow> string \<Rightarrow> nat
     \<Rightarrow> (error + AnalysisResult list) \<times> StockfishEngine" where
  "getTopMoves chess found io c fenStr numMoves = getTopMovesLoop chess found io fenStr numMoves 0 [] c"

text \<open>
  \<^verbatim>\<open>analyzeGame(pgn)\<close>: the loop over \<^verbatim>\<open>history\<close>, from index \<open>i\<close> and state \<open>pos\<close> of
  the \<^verbatim>\<open>Chess\<close> object on, then the function. A failure of \<^verbatim>\<open>loadPgn\<close> is caught and the
  empty list returned; a failure of \<^verbatim>\<open>chess.move\<close> is not caught.
\<close>

fun analyzeGameLoop ::
  "'p Chess \<Rightarrow> bool \<Rightarrow> (nat \<Rightarrow> arrivals) \<Rightarrow> nat \<Rightarrow> 'p \<Rightarrow> string list \<Rightarrow> PositionAnalysis list
     \<Rightarrow> StockfishEngine \<Rightarrow> (error + PositionAnalysis list) \<times> StockfishEngine" where
  "analyzeGameLoop chess found io i pos [] analyses c = (Inr analyses, c)"
| "analyzeGameLoop chess found io i pos (san # rest) analyses c =
     (let fenStr = ch_fen chess pos in
      case analyzePosition found (io i) c fenStr 18 8000 of
        (Inl e, c1) \<Rightarrow> (Inl e, c1)
      | (Inr a, c1) \<Rightarrow>
          (let moveClassification = classifyMove (evaluation a) i;
               entry = \<lparr>blunder = blunder moveClassification, mistake = mistake moveClassification,
                        inaccuracy = inaccuracy moveClassification,
                        brilliant = brilliant moveClassification, best = best moveClassification,
                        fen = fenStr, move = san, analysis = [a]\<rparr>
           in case ch_move chess pos san of
                None \<Rightarrow> (Inl ChessError, c1)
              | Some pos1 \<Rightarrow> analyzeGameLoop chess found io (Suc i) pos1 rest (analyses @ [entry]) c1))"

definition analyzeGame ::
  "'p Chess \<Rightarrow> bool \<Rightarrow> (nat \<Rightarrow> arrivals) \<Rightarrow> StockfishEngine \<Rightarrow> string
     \<Rightarrow> (error + PositionAnalysis list) \<times> StockfishEngine" where
  "analyzeGame chess found io c pgn =
     (case ch_loadPgn chess pgn of
        None \<Rightarrow> (Inr [], c)
      | Some game \<Rightarrow> analyzeGameLoop chess found io 0 (ch_reset chess) (ch_history chess game) [] c)"

section \<open>The engine pool (class MultiVersionStockfish)\<close>

type_synonym pool = "string \<Rightarrow> StockfishEngine option"

definition getEngine :: "bool \<Rightarrow> pool \<Rightarrow> string \<Rightarrow> StockfishEngine \<times> pool" where
  "getEngine found engines v =
     (case engines v of
        None \<Rightarrow> (let e = initialize found (newStockfishEngine v) in (e, engines(v \<mapsto> e)))
      | Some e \<Rightarrow> (e, engines))"

section \<open>Position and game reports (class GeminiChessAI)\<close>

text \<open>\<^verbatim>\<open>calculateMaterial\<close>: the two nested loops over \<^verbatim>\<open>chess.board()\<close>.\<close>

fun materialValues :: "PieceSymbol \<Rightarrow> int" where
  "materialValues Pawn = 1"
| "materialValues Knight = 3"
| "materialValues Bishop = 3"
| "materialValues Rook = 5"
| "materialValues Queen = 9"
| "materialValues King = 0"

definition countPiece :: "int \<times> int \<Rightarrow> Piece option \<Rightarrow> int \<times> int" where
  "countPiece wb square =
     (case square of
        None \<Rightarrow> wb
      | Some piece \<Rightarrow>
          (if color piece = White then (fst wb + materialValues (ptype piece), snd wb)
           else (fst wb, snd wb + materialValues (ptype piece))))"

definition calculateMaterial :: "Piece option list list \<Rightarrow> int \<times> int" where
  "calculateMaterial brd = foldl (\<lambda>wb row. foldl countPiece wb row) (0, 0) brd"

text \<open>
  \<^verbatim>\<open>generateFallbackAnalysis(fen)\<close>. \<open>rnd\<close> is the value of \<^verbatim>\<open>Math.random()\<close>. The
  constructor \<^verbatim>\<open>new Chess(fen)\<close> throws on a FEN the library rejects, and nothing here
  catches it.
\<close>

definition generateFallbackAnalysis :: "'p Chess \<Rightarrow> rat \<Rightarrow> string \<Rightarrow> error + AIMoveSuggestion" where
  "generateFallbackAnalysis chess rnd fenStr =
     (case ch_load chess fenStr of
        None \<Rightarrow> Inl ChessError
      | Some pos \<Rightarrow>
          (let ms = ch_moves chess pos;
               material = calculateMaterial (ch_board chess pos);
               ev = fst material - snd material;
               randomMove = elemAt ms (nat \<lfloor>rnd * of_nat (min (length ms) 5)\<rfloor>)
           in Inr \<lparr>AIMoveSuggestion.move = Some (case randomMove of Some san \<Rightarrow> san | None \<Rightarrow> ''e2e4''),
                    confidence = Fin (3 / 10),
                    AIMoveSuggestion.evaluation = Fin (of_int ev),
                    alternatives = map (\<lambda>san. (Some san, Fin 0)) (take 3 (drop 1 ms))\<rparr>))"

definition calculateConfidence :: "AnalysisResult \<Rightarrow> AnalysisResult list \<Rightarrow> jsnum" where
  "calculateConfidence bestResult topMoves =
     (if length topMoves < 2 then Fin 1
      else (let evalDiff = js_abs (js_sub (AnalysisResult.evaluation bestResult)
                                     (AnalysisResult.evaluation (topMoves ! 1)))
            in js_min (Fin 1) (js_div evalDiff (Fin 2))))"

text \<open>
  \<^verbatim>\<open>analyzePosition(fen, depth, stockfishVersion)\<close> of \<^verbatim>\<open>GeminiChessAI\<close>: every error of
  the \<^verbatim>\<open>try\<close> block leads to \<^verbatim>\<open>generateFallbackAnalysis\<close>. \<open>io 0\<close> is what the engine
  sends during the first search, \<open>io (Suc k)\<close> during search \<open>k\<close> of \<^verbatim>\<open>getTopMoves\<close>.
  The client is an object shared with the pool, so the pool is returned with the
  client's new state in it.
\<close>

definition ai_analyzePosition ::
  "'p Chess \<Rightarrow> bool \<Rightarrow> (nat \<Rightarrow> arrivals) \<Rightarrow> rat \<Rightarrow> pool \<Rightarrow> string \<Rightarrow> int \<Rightarrow> string
     \<Rightarrow> (error + AIMoveSuggestion) \<times> pool" where
  "ai_analyzePosition chess found io rnd engines fenStr depthLimit v =
     (let (e0, engines1) = getEngine found engines v in
      case analyzePosition found (io 0) e0 fenStr depthLimit 10000 of
        (Inl err, e1) \<Rightarrow> (generateFallbackAnalysis chess rnd fenStr, engines1(v \<mapsto> e1))
      | (Inr result, e1) \<Rightarrow>
          (case getTopMoves chess found (\<lambda>k. io (Suc k)) e1 fenStr 3 of
             (Inl err, e2) \<Rightarrow> (generateFallbackAnalysis chess rnd fenStr, engines1(v \<mapsto> e2))
           | (Inr topMoves, e2) \<Rightarrow>
               (case ch_load chess fenStr of
                  None \<Rightarrow> (generateFallbackAnalysis chess rnd fenStr, engines1(v \<mapsto> e2))
                | Some pos \<Rightarrow>
                    (Inr \<lparr>AIMoveSuggestion.move = bestMove result,
                          confidence = calculateConfidence result topMoves,
                          AIMoveSuggestion.evaluation = AnalysisResult.evaluation result,
                          alternatives = map (\<lambda>alt. (bestMove alt, AnalysisResult.evaluation alt))
                                           (drop 1 topMoves)\<rparr>,
                     engines1(v \<mapsto> e2)))))"

text \<open>
  \<^verbatim>\<open>GameAnalysis\<close> and its parts; \<open>openingName\<close> is the property \<^verbatim>\<open>opening\<close> of the
  summary. The accuracies are quotients of counts times 100 or literals, never \<open>NaN\<close>,
  and are kept as rationals.
\<close>

record Summary =
  whiteAccuracy :: rat
  blackAccuracy :: rat
  averageRating :: nat
  gameResult :: string
  timeControl :: string
  openingName :: string
  criticalMoments :: nat

record Insights =
  patterns :: "string list"
  improvements :: "string list"
  strengths :: "string list"
  weaknesses :: "string list"

record Recommendations =
  studyTopics :: "string list"
  trainingExercises :: "string list"
  nextOpponentLevel :: string

record GameAnalysis =
  summary :: Summary
  moves :: "PositionAnalysis list"
  insights :: Insights
  recommendations :: Recommendations

text \<open>\<^verbatim>\<open>xs.filter((_, i) => p(i))\<close>: the elements whose index satisfies \<open>p\<close>.\<close>

definition filterIndex :: "(nat \<Rightarrow> bool) \<Rightarrow> 'a list \<Rightarrow> 'a list" where
  "filterIndex p xs = map snd (filter (\<lambda>ix. p (fst ix)) (enumerate 0 xs))"

definition calculateAccuracy :: "PositionAnalysis list \<Rightarrow> rat" where
  "calculateAccuracy ms =
     (if length ms = 0 then 0
      else (let accurateMoves = length (filter (\<lambda>m. \<not> truthy (blunder m) \<and> \<not> truthy (mistake m)) ms)
            in (of_nat accurateMoves / of_nat (length ms)) * 100))"

definition generateGameSummary :: "'p Chess \<Rightarrow> PositionAnalysis list \<Rightarrow> 'p \<Rightarrow> Summary" where
  "generateGameSummary chess analyses game =
     (let whiteMoves = filterIndex (\<lambda>i. i mod 2 = 0) analyses;
          blackMoves = filterIndex (\<lambda>i. i mod 2 = 1) analyses
      in \<lparr>whiteAccuracy = calculateAccuracy whiteMoves,
          blackAccuracy = calculateAccuracy blackMoves,
          averageRating = 1500,
          gameResult = (if ch_turn chess game = White then ''0-1'' else ''1-0''),
          timeControl = ''Unknown'',
          openingName = ''Unknown'',
          criticalMoments = length (filter (\<lambda>a. truthy (blunder a) \<or> truthy (brilliant a)) analyses)\<rparr>)"

definition generateInsights :: "PositionAnalysis list \<Rightarrow> Insights" where
  "generateInsights analyses =
     (let blunders = length (filter (\<lambda>a. truthy (blunder a)) analyses);
          brilliantMoves = length (filter (\<lambda>a. truthy (brilliant a)) analyses)
      in \<lparr>patterns = [''Tactical awareness'', ''Positional understanding''],
          improvements = (if blunders > 0 then [''Reduce blunders'', ''Better time management''] else []),
          strengths = (if brilliantMoves > 0 then [''Tactical vision'', ''Calculation accuracy''] else []),
          weaknesses = (if blunders > 2 then [''Tactical oversight'', ''Time pressure''] else [])\<rparr>)"

definition generateRecommendations :: "Insights \<Rightarrow> Summary \<Rightarrow> Recommendations" where
  "generateRecommendations ins sm =
     \<lparr>studyTopics = [''Tactics'', ''Endgames'', ''Opening theory''],
      trainingExercises = [''Puzzle solving'', ''Game analysis'', ''Speed chess''],
      nextOpponentLevel = (if averageRating sm > 1500 then ''1600-1800'' else ''1400-1600'')\<rparr>"

definition generateEmptyGameAnalysis :: GameAnalysis where
  "generateEmptyGameAnalysis =
     \<lparr>summary = \<lparr>whiteAccuracy = 50, blackAccuracy = 50, averageRating = 1200, gameResult = ''*'',
                  timeControl = ''Unknown'', openingName = ''Unknown'', criticalMoments = 0\<rparr>,
      moves = [],
      insights = \<lparr>patterns = [], improvements = [''Learn chess basics''], strengths = [],
                   weaknesses = [''Complete beginner'']\<rparr>,
      recommendations = \<lparr>studyTopics = [''Rules of chess'', ''Basic tactics''],
                          trainingExercises = [''Learn piece movements'', ''Practice checkmating''],
                          nextOpponentLevel = ''Beginner players''\<rparr>\<rparr>"

text \<open>
  \<^verbatim>\<open>generateFallbackGameAnalysis(pgn)\<close>: the replay loop, which returns the entries and
  the final state of the \<^verbatim>\<open>Chess\<close> object, then the function.
\<close>

fun fallbackLoop ::
  "'p Chess \<Rightarrow> 'p \<Rightarrow> string list \<Rightarrow> PositionAnalysis list \<Rightarrow> error + (PositionAnalysis list \<times> 'p)" where
  "fallbackLoop chess pos [] ms = Inr (ms, pos)"
| "fallbackLoop chess pos (san # rest) ms =
     (let entry = \<lparr>blunder = None, mistake = None, inaccuracy = None, brilliant = None, best = None,
                   fen = ch_fen chess pos, move = san,
                   analysis = [\<lparr>bestMove = Some san, evaluation = Fin 0, depth = Fin 1, nodes = Fin 1,
                                time = 0, pv = [san], mate = None\<rparr>]\<rparr>
      in case ch_move chess pos san of
           None \<Rightarrow> Inl ChessError
         | Some pos1 \<Rightarrow> fallbackLoop chess pos1 rest (ms @ [entry]))"

definition generateFallbackGameAnalysis :: "'p Chess \<Rightarrow> string \<Rightarrow> error + GameAnalysis" where
  "generateFallbackGameAnalysis chess pgn =
     (case ch_loadPgn chess pgn of
        None \<Rightarrow> Inr generateEmptyGameAnalysis
      | Some game \<Rightarrow>
          (case fallbackLoop chess (ch_reset chess) (ch_history chess game) [] of
             Inl err \<Rightarrow> Inl err
           | Inr (ms, final) \<Rightarrow>
               Inr \<lparr>summary = \<lparr>whiteAccuracy = 50, blackAccuracy = 50, averageRating = 1200,
                                gameResult = (if length (ch_history chess final) mod 2 = 0
                                              then ''1-0'' else ''0-1''),
                                timeControl = ''Unknown'', openingName = ''Unknown'', criticalMoments = 0\<rparr>,
                    moves = ms,
                    insights = \<lparr>patterns = [],
                                 improvements = [''Study basic tactics'', ''Practice endgames''],
                                 strengths = [''Good opening knowledge''],
                                 weaknesses = [''Tactical awareness needs improvement'']\<rparr>,
                    recommendations = \<lparr>studyTopics = [''Basic tactics'', ''Opening principles''],
                                        trainingExercises = [''Puzzle solving'', ''Endgame practice''],
                                        nextOpponentLevel = ''Similar rating players''\<rparr>\<rparr>))"

text \<open>
  \<^verbatim>\<open>analyzeGame(pgn, platform, stockfishVersion)\<close> of \<^verbatim>\<open>GeminiChessAI\<close>; the platform
  is not used by the source.
\<close>

definition ai_analyzeGame ::
  "'p Chess \<Rightarrow> bool \<Rightarrow> (nat \<Rightarrow> arrivals) \<Rightarrow> pool \<Rightarrow> string \<Rightarrow> string
     \<Rightarrow> (error + GameAnalysis) \<times> pool" where
  "ai_analyzeGame chess found io engines pgn v =
     (let (e0, engines1) = getEngine found engines v in
      case analyzeGame chess found io e0 pgn of
        (Inl err, e1) \<Rightarrow> (generateFallbackGameAnalysis chess pgn, engines1(v \<mapsto> e1))
      | (Inr positionAnalyses, e1) \<Rightarrow>
          (case ch_loadPgn chess pgn of
             None \<Rightarrow> (generateFallbackGameAnalysis chess pgn, engines1(v \<mapsto> e1))
           | Some game \<Rightarrow>
               (let sm = generateGameSummary chess positionAnalyses game;
                    ins = generateInsights positionAnalyses
                in (Inr \<lparr>summary = sm, moves = positionAnalyses, insights = ins,
                         recommendations = generateRecommendations ins sm\<rparr>,
                    engines1(v \<mapsto> e1)))))"

section \<open>Notions used to state the properties\<close>

text \<open>
  The client has an engine to talk to once \<^verbatim>\<open>analyzePosition\<close> has run its lazy
  initialisation: it is ready and holds one, or it is not ready and either the
  constructor is found or an earlier worker is still attached.
\<close>

definition engineAvailable :: "bool \<Rightarrow> StockfishEngine \<Rightarrow> bool" where
  "engineAvailable found c = (if isReady c then engine c \<noteq> None else found \<or> engine c \<noteq> None)"

text \<open>
  No engine can be had for version \<open>v\<close>: the constructor is not found, and the pool holds
  no client for \<open>v\<close> or one without a worker.
\<close>

definition engineUnavailable :: "bool \<Rightarrow> pool \<Rightarrow> string \<Rightarrow> bool" where
  "engineUnavailable found engines v =
     (\<not> found \<and> (case engines v of None \<Rightarrow> True | Some e \<Rightarrow> engine e = None))"

text \<open>
  The static material balance in the words of the specification: the values of the
  pieces of a side summed (pawn 1, knight 3, bishop 3, rook 5, queen 9, king 0), White
  minus Black.
\<close>

definition piecesOf :: "Color \<Rightarrow> Piece option list list \<Rightarrow> Piece list" where
  "piecesOf side brd = filter (\<lambda>p. color p = side) (List.map_filter (\<lambda>sq. sq) (concat brd))"

definition sideMaterial :: "Color \<Rightarrow> Piece option list list \<Rightarrow> int" where
  "sideMaterial side brd = sum_list (map (\<lambda>p. materialValues (ptype p)) (piecesOf side brd))"

definition materialBalance :: "Piece option list list \<Rightarrow> int" where
  "materialBalance brd = sideMaterial White brd - sideMaterial Black brd"

text \<open>
  The board that the piece placement of a FEN describes: ranks from the eighth to the
  first separated by \<^verbatim>\<open>/\<close>, a digit for that many empty squares, an upper-case letter
  for a white piece and a lower-case letter for a black one.
\<close>

definition pieceOfChar :: "char \<Rightarrow> Piece option" where
  "pieceOfChar c =
     (if c = CHR ''P'' then Some \<lparr>ptype = Pawn, color = White\<rparr>
      else if c = CHR ''N'' then Some \<lparr>ptype = Knight, color = White\<rparr>
      else if c = CHR ''B'' then Some \<lparr>ptype = Bishop, color = White\<rparr>
      else if c = CHR ''R'' then Some \<lparr>ptype = Rook, color = White\<rparr>
      else if c = CHR ''Q'' then Some \<lparr>ptype = Queen, color = White\<rparr>
      else if c = CHR ''K'' then Some \<lparr>ptype = King, color = White\<rparr>
      else if c = CHR ''p'' then Some \<lparr>ptype = Pawn, color = Black\<rparr>
      else if c = CHR ''n'' then Some \<lparr>ptype = Knight, color = Black\<rparr>
      else if c = CHR ''b'' then Some \<lparr>ptype = Bishop, color = Black\<rparr>
      else if c = CHR ''r'' then Some \<lparr>ptype = Rook, color = Black\<rparr>
      else if c = CHR ''q'' then Some \<lparr>ptype = Queen, color = Black\<rparr>
      else if c = CHR ''k'' then Some \<lparr>ptype = King, color = Black\<rparr>
      else None)"

fun fenRank :: "string \<Rightarrow> Piece option list" where
  "fenRank [] = []"
| "fenRank (c # cs) =
     (case decDigit c of
        Some d \<Rightarrow> replicate d None @ fenRank cs
      | None \<Rightarrow> pieceOfChar c # fenRank cs)"

definition fenBoard :: "string \<Rightarrow> Piece option list list" where
  "fenBoard fenStr = map fenRank (splitOn (CHR ''/'') [] (takeWhile (\<lambda>c. c \<noteq> CHR '' '') fenStr))"

definition startFen :: string where
  "startFen = ''rnbqkbnr/pppppppp/8/8/8/8/PPPPPPPP/RNBQKBNR w KQkq - 0 1''"





text \<open>The number of searches a client has started: its \<^verbatim>\<open>go depth\<close> commands.\<close>

definition searchesStarted :: "StockfishEngine \<Rightarrow> nat" where
  "searchesStarted c = length (filter (\<lambda>cmd. startsWith cmd ''go depth '') (posted c))"


text \<open>
  The plies of a side, as indices into the list of analyses (\<open>r = 0\<close> for the first
  mover, \<open>r = 1\<close> for the second), and whether the move at an index is flagged neither
  blunder nor mistake.
\<close>

definition pliesOf :: "nat \<Rightarrow> 'a list \<Rightarrow> nat list" where
  "pliesOf r xs = filter (\<lambda>i. i mod 2 = r) [0..<length xs]"

definition accurateAt :: "PositionAnalysis list \<Rightarrow> nat \<Rightarrow> bool" where
  "accurateAt xs i = (\<not> truthy (blunder (xs ! i)) \<and> \<not> truthy (mistake (xs ! i)))"

text \<open>A number in the interval from 0 to 1; \<open>NaN\<close> and the infinities are not.\<close>

definition inUnit :: "jsnum \<Rightarrow> bool" where
  "inUnit a = (case a of NaN \<Rightarrow> False | Fin c \<Rightarrow> 0 \<le> c \<and> c \<le> 1 | PInf \<Rightarrow> False | NInf \<Rightarrow> False)"

text \<open>An engine that sends nothing during any search.\<close>

definition silent :: "nat \<Rightarrow> arrivals" where
  "silent k = []"

text \<open>An entry of a game analysis without flags and without search results.\<close>

definition noFlagsEntry :: PositionAnalysis where
  "noFlagsEntry = \<lparr>blunder = None, mistake = None, inaccuracy = None, brilliant = None, best = None,
                    fen = [], move = [], analysis = []\<rparr>"



text \<open>
  Commands of a sweep over the position \<open>fenStr\<close> at depth \<open>d\<close>: every \<^verbatim>\<open>position\<close>
  command sets that position and every \<^verbatim>\<open>go\<close> command is the plain search to depth
  \<open>d\<close>. \<open>goCount\<close> counts the searches among a list of commands.
\<close>

definition commandsFor :: "string \<Rightarrow> int \<Rightarrow> string list \<Rightarrow> bool" where
  "commandsFor fenStr d cmds =
     list_all (\<lambda>cmd. (startsWith cmd ''position'' \<longrightarrow> cmd = ''position fen '' @ fenStr)
                   \<and> (startsWith cmd ''go'' \<longrightarrow> cmd = ''go depth '' @ showInt d)) cmds"

definition goCount :: "string list \<Rightarrow> nat" where
  "goCount cmds = length (filter (\<lambda>cmd. startsWith cmd ''go depth '') cmds)"

text \<open>An engine that answers every search with \<^verbatim>\<open>bestmove e2e4\<close> after 5 ms.\<close>

definition sameBestMove :: "nat \<Rightarrow> arrivals" where
  "sameBestMove k = [(5, ''bestmove e2e4'')]"



section \<open>An instance of the notation library for concrete runs\<close>

text \<open>
  A small instance of the library's interface, on which the model is run at concrete
  inputs. A state is the list of moves played from the standard starting position. It
  knows the standard starting position and the games \<^verbatim>\<open>1. e4\<close> and \<^verbatim>\<open>1. e4 e5\<close>, and it
  rejects every other text, as the library rejects text that is not notation.
\<close>

definition smallChess :: "string list Chess" where
  "smallChess =
     \<lparr>ch_load = (\<lambda>s. if s = startFen then Some [] else None),
      ch_loadPgn = (\<lambda>s. if s = ''1. e4'' then Some [''e4'']
                         else if s = ''1. e4 e5'' then Some [''e4'', ''e5''] else None),
      ch_reset = [],
      ch_history = (\<lambda>p. p),
      ch_fen = (\<lambda>p. if p = [] then startFen
                     else if p = [''e4''] then ''rnbqkbnr/pppppppp/8/8/4P3/8/PPPP1PPP/RNBQKBNR b KQkq - 0 1''
                     else ''rnbqkbnr/pppp1ppp/8/4p3/4P3/8/PPPP1PPP/RNBQKBNR w KQkq - 0 2''),
      ch_move = (\<lambda>p san. if p = [] \<and> (san = ''e4'' \<or> san = ''e2e4'') then Some [''e4'']
                          else if p = [''e4''] \<and> (san = ''e5'' \<or> san = ''e7e5'') then Some [''e4'', ''e5'']
                          else None),
      ch_moves = (\<lambda>p. if p = [] then
                         [''a3'', ''a4'', ''b3'', ''b4'', ''c3'', ''c4'', ''d3'', ''d4'', ''e3'', ''e4'',
                          ''f3'', ''f4'', ''g3'', ''g4'', ''h3'', ''h4'', ''Na3'', ''Nc3'', ''Nf3'', ''Nh3'']
                       else []),
      ch_board = (\<lambda>p. fenBoard (if p = [] then startFen
                     else if p = [''e4''] then ''rnbqkbnr/pppppppp/8/8/4P3/8/PPPP1PPP/RNBQKBNR b KQkq - 0 1''
                     else ''rnbqkbnr/pppp1ppp/8/4p3/4P3/8/PPPP1PPP/RNBQKBNR w KQkq - 0 2'')),
      ch_turn = (\<lambda>p. if even (length p) then White else Black)\<rparr>"

section \<open>Theorems\<close>

text \<open>
  Claim C1. For every evaluation (also \<open>NaN\<close>) and every move index, \<open>classifyMove\<close> sets
  at most one flag, and which one is decided by the first threshold that the absolute
  evaluation meets: at least 3 is a blunder, else at least 1.5 a mistake, else at least
  0.5 an inaccuracy, else at most 0.1 a best move, else at most 0.2 with a move index
  above 10 a brilliant move, else no flag. An evaluation of exactly 3.0 is a blunder and
  not a mistake.
\<close>

theorem classifyMove_thresholds:
  "length (flagsSet (classifyMove e i)) \<le> 1
   \<and> flagsSet (classifyMove e i) =
       (if js_ge (js_abs e) (Fin 3) then [''blunder'']
        else if js_ge (js_abs e) (Fin (3 / 2)) then [''mistake'']
        else if js_ge (js_abs e) (Fin (1 / 2)) then [''inaccuracy'']
        else if js_le (js_abs e) (Fin (1 / 10)) then [''best'']
        else if js_le (js_abs e) (Fin (2 / 10)) \<and> i > 10 then [''brilliant'']
        else [])
   \<and> (truthy (blunder (classifyMove (Fin x) i)) \<longleftrightarrow> 3 \<le> \<bar>x\<bar>)
   \<and> (truthy (mistake (classifyMove (Fin x) i)) \<longleftrightarrow> 3 / 2 \<le> \<bar>x\<bar> \<and> \<bar>x\<bar> < 3)
   \<and> (truthy (inaccuracy (classifyMove (Fin x) i)) \<longleftrightarrow> 1 / 2 \<le> \<bar>x\<bar> \<and> \<bar>x\<bar> < 3 / 2)
   \<and> (truthy (best (classifyMove (Fin x) i)) \<longleftrightarrow> \<bar>x\<bar> \<le> 1 / 10)
   \<and> (truthy (brilliant (classifyMove (Fin x) i)) \<longleftrightarrow> 1 / 10 < \<bar>x\<bar> \<and> \<bar>x\<bar> \<le> 2 / 10 \<and> i > 10)
   \<and> flagsSet (classifyMove NaN i) = []
   \<and> flagsSet (classifyMove (Fin 3) i) = [''blunder'']
   \<and> flagsSet (classifyMove (Fin (- 3)) i) = [''blunder'']"
  by (cases e)
     (auto simp: classifyMove_def flagsSet_def noFlags_def truthy_def Let_def
        js_abs_def js_ge_def js_le_def)


subsection \<open>Accuracy per side\<close>

lemma zip_upt_nth: "zip [0..<length xs] xs = map (\<lambda>i. (i, xs ! i)) [0..<length xs]"
  by (rule nth_equalityI) auto

lemma filterIndex_nth: "filterIndex p xs = map (\<lambda>i. xs ! i) (filter p [0..<length xs])"
  by (simp add: filterIndex_def enumerate_eq_zip zip_upt_nth filter_map comp_def)

lemma calculateAccuracy_nth:
  "calculateAccuracy (map (\<lambda>i. xs ! i) is) =
     (if is = [] then 0 else of_nat (length (filter (accurateAt xs) is)) / of_nat (length is) * 100)"
proof -
  have "accurateAt xs = (\<lambda>i. \<not> truthy (blunder (xs ! i)) \<and> \<not> truthy (mistake (xs ! i)))"
    by (rule ext) (simp add: accurateAt_def)
  then show ?thesis
    by (simp add: calculateAccuracy_def filter_map comp_def Let_def)
qed

lemma calculateAccuracy_Nil: "calculateAccuracy [] = 0"
  by (simp add: calculateAccuracy_def)

lemma ratio_le_100:
  fixes a n :: nat
  assumes "a \<le> n" and "0 < n"
  shows "of_nat a * 100 / of_nat n \<le> (100::rat)"
proof -
  have "(of_nat a :: rat) * 100 \<le> 100 * of_nat n" using assms(1) by simp
  moreover have "(0::rat) < of_nat n" using assms(2) by simp
  ultimately show ?thesis by (simp add: pos_divide_le_eq)
qed

lemma calculateAccuracy_range: "0 \<le> calculateAccuracy ms \<and> calculateAccuracy ms \<le> 100"
proof (cases "ms = []")
  case True
  then show ?thesis by (simp add: calculateAccuracy_def)
next
  case False
  have "length (filter (\<lambda>m. \<not> truthy (blunder m) \<and> \<not> truthy (mistake m)) ms) \<le> length ms" by simp
  moreover have "0 < length ms" using False by simp
  ultimately have "of_nat (length (filter (\<lambda>m. \<not> truthy (blunder m) \<and> \<not> truthy (mistake m)) ms)) * 100
                    / of_nat (length ms) \<le> (100::rat)"
    by (rule ratio_le_100)
  with False show ?thesis
    by (simp add: calculateAccuracy_def Let_def)
qed

lemma calculateAccuracy_all:
  assumes "is \<noteq> []" and "\<forall>i\<in>set is. accurateAt xs i"
  shows "calculateAccuracy (map (\<lambda>i. xs ! i) is) = 100"
proof -
  have "filter (accurateAt xs) is = is" using assms(2) by (simp add: filter_id_conv)
  with assms(1) show ?thesis by (simp add: calculateAccuracy_nth)
qed

text \<open>
  Claim C9, as amended. The moves are split by the parity of the ply, even plies to the
  first mover and odd plies to the second. For a side that has at least one move, the
  reported accuracy is 100 times the number of its moves flagged neither blunder nor
  mistake, divided by the number of its moves, and it is 100 when none of its moves is
  flagged blunder or mistake. The accuracy always lies between 0 and 100. A side
  without any move is reported with accuracy 0.
\<close>

theorem summary_accuracy:
  "(pliesOf 0 analyses \<noteq> [] \<longrightarrow>
      whiteAccuracy (generateGameSummary chess analyses game) =
        100 * of_nat (length (filter (accurateAt analyses) (pliesOf 0 analyses)))
            / of_nat (length (pliesOf 0 analyses)))
   \<and> (pliesOf 1 analyses \<noteq> [] \<longrightarrow>
      blackAccuracy (generateGameSummary chess analyses game) =
        100 * of_nat (length (filter (accurateAt analyses) (pliesOf 1 analyses)))
            / of_nat (length (pliesOf 1 analyses)))
   \<and> 0 \<le> whiteAccuracy (generateGameSummary chess analyses game)
   \<and> whiteAccuracy (generateGameSummary chess analyses game) \<le> 100
   \<and> 0 \<le> blackAccuracy (generateGameSummary chess analyses game)
   \<and> blackAccuracy (generateGameSummary chess analyses game) \<le> 100
   \<and> (pliesOf 0 analyses \<noteq> [] \<and> (\<forall>i\<in>set (pliesOf 0 analyses). accurateAt analyses i) \<longrightarrow>
        whiteAccuracy (generateGameSummary chess analyses game) = 100)
   \<and> (pliesOf 1 analyses \<noteq> [] \<and> (\<forall>i\<in>set (pliesOf 1 analyses). accurateAt analyses i) \<longrightarrow>
        blackAccuracy (generateGameSummary chess analyses game) = 100)
   \<and> (pliesOf 0 analyses = [] \<longrightarrow> whiteAccuracy (generateGameSummary chess analyses game) = 0)
   \<and> (pliesOf 1 analyses = [] \<longrightarrow> blackAccuracy (generateGameSummary chess analyses game) = 0)"
proof -
  have w: "whiteAccuracy (generateGameSummary chess analyses game) =
             calculateAccuracy (map (\<lambda>i. analyses ! i) (pliesOf 0 analyses))"
    by (simp add: generateGameSummary_def Let_def filterIndex_nth pliesOf_def)
  have b: "blackAccuracy (generateGameSummary chess analyses game) =
             calculateAccuracy (map (\<lambda>i. analyses ! i) (pliesOf 1 analyses))"
    by (simp add: generateGameSummary_def Let_def filterIndex_nth pliesOf_def)
  have r0: "0 \<le> calculateAccuracy (map (\<lambda>i. analyses ! i) (pliesOf 0 analyses))"
          "calculateAccuracy (map (\<lambda>i. analyses ! i) (pliesOf 0 analyses)) \<le> 100"
    and r1: "0 \<le> calculateAccuracy (map (\<lambda>i. analyses ! i) (pliesOf 1 analyses))"
          "calculateAccuracy (map (\<lambda>i. analyses ! i) (pliesOf 1 analyses)) \<le> 100"
    using calculateAccuracy_range by blast+
  show ?thesis
    unfolding w b
    by (intro conjI impI r0 r1 calculateAccuracy_all) (simp_all add: calculateAccuracy_nth calculateAccuracy_Nil)
qed

text \<open>
  The theorem at a game of two plies: White's move is flagged best, Black's is flagged
  blunder, so White is reported with 100 and Black with 0.
\<close>

theorem summary_accuracy_witness:
  "pliesOf 0 [noFlagsEntry\<lparr>best := Some True\<rparr>, noFlagsEntry\<lparr>blunder := Some True\<rparr>] = [0]
   \<and> pliesOf 1 [noFlagsEntry\<lparr>best := Some True\<rparr>, noFlagsEntry\<lparr>blunder := Some True\<rparr>] = [1]
   \<and> accurateAt [noFlagsEntry\<lparr>best := Some True\<rparr>, noFlagsEntry\<lparr>blunder := Some True\<rparr>] 0
   \<and> whiteAccuracy (generateGameSummary smallChess
         [noFlagsEntry\<lparr>best := Some True\<rparr>, noFlagsEntry\<lparr>blunder := Some True\<rparr>] [''e4'', ''e5'']) = 100
   \<and> blackAccuracy (generateGameSummary smallChess
         [noFlagsEntry\<lparr>best := Some True\<rparr>, noFlagsEntry\<lparr>blunder := Some True\<rparr>] [''e4'', ''e5'']) = 0"
proof -
  have p0: "pliesOf 0 [noFlagsEntry\<lparr>best := Some True\<rparr>, noFlagsEntry\<lparr>blunder := Some True\<rparr>] = [0]"
    and p1: "pliesOf 1 [noFlagsEntry\<lparr>best := Some True\<rparr>, noFlagsEntry\<lparr>blunder := Some True\<rparr>] = [1]"
    by (simp_all add: pliesOf_def upt_rec)
  have a0: "accurateAt [noFlagsEntry\<lparr>best := Some True\<rparr>, noFlagsEntry\<lparr>blunder := Some True\<rparr>] 0"
    and a1: "\<not> accurateAt [noFlagsEntry\<lparr>best := Some True\<rparr>, noFlagsEntry\<lparr>blunder := Some True\<rparr>] 1"
    by (simp_all add: accurateAt_def truthy_def noFlagsEntry_def)
  show ?thesis
    using summary_accuracy [of "[noFlagsEntry\<lparr>best := Some True\<rparr>, noFlagsEntry\<lparr>blunder := Some True\<rparr>]"
        smallChess "[''e4'', ''e5'']"]
    by (simp add: p0 p1 a0 a1 del: One_nat_def)
qed

text \<open>
  Claim C9 as stated fails for a side without moves: in a game of one ply Black has no
  blunder and no mistake, and is reported with accuracy 0, not 100.
\<close>

theorem accuracy_no_moves_counterexample:
  "pliesOf 1 [noFlagsEntry\<lparr>best := Some True\<rparr>] = []
   \<and> blackAccuracy (generateGameSummary smallChess [noFlagsEntry\<lparr>best := Some True\<rparr>] [''e4'']) = 0"
  by (simp add: pliesOf_def upt_rec generateGameSummary_def filterIndex_def calculateAccuracy_def)



subsection \<open>Confidence\<close>

text \<open>
  Claim C8, as amended. With fewer than two results the confidence is exactly 1. With
  at least two results it is \<open>min 1 (d / 2)\<close> for the absolute difference \<open>d\<close> of the two
  compared evaluations: \<open>min 1 (\<bar>x - y\<bar> / 2)\<close> when both are finite numbers \<open>x\<close> and \<open>y\<close>,
  and 1 when the difference is infinite. It lies between 0 and 1 in every case but one:
  with at least two results and a difference that is \<open>NaN\<close>, which happens exactly when
  one of the two evaluations is \<open>NaN\<close> or both are the same infinity, the confidence is
  \<open>NaN\<close>.
\<close>

theorem calculateConfidence_value:
  "(length topMoves < 2 \<longrightarrow> calculateConfidence b topMoves = Fin 1)
   \<and> (2 \<le> length topMoves \<and> evaluation b = Fin x \<and> evaluation (topMoves ! 1) = Fin y \<longrightarrow>
        calculateConfidence b topMoves = Fin (min 1 (\<bar>x - y\<bar> / 2)))
   \<and> (2 \<le> length topMoves \<and> (evaluation b = NaN \<or> evaluation (topMoves ! 1) = NaN) \<longrightarrow>
        calculateConfidence b topMoves = NaN)
   \<and> (2 \<le> length topMoves
        \<and> (js_sub (evaluation b) (evaluation (topMoves ! 1)) = PInf
           \<or> js_sub (evaluation b) (evaluation (topMoves ! 1)) = NInf) \<longrightarrow>
        calculateConfidence b topMoves = Fin 1)
   \<and> (2 \<le> length topMoves \<and> js_sub (evaluation b) (evaluation (topMoves ! 1)) = NaN \<longrightarrow>
        calculateConfidence b topMoves = NaN)
   \<and> (js_sub (evaluation b) (evaluation (topMoves ! 1)) = NaN \<longleftrightarrow>
        evaluation b = NaN \<or> evaluation (topMoves ! 1) = NaN
        \<or> (evaluation b = PInf \<and> evaluation (topMoves ! 1) = PInf)
        \<or> (evaluation b = NInf \<and> evaluation (topMoves ! 1) = NInf))
   \<and> (inUnit (calculateConfidence b topMoves) \<longleftrightarrow>
        length topMoves < 2 \<or> js_sub (evaluation b) (evaluation (topMoves ! 1)) \<noteq> NaN)"
  by (cases "evaluation b"; cases "evaluation (topMoves ! 1)")
     (auto simp: calculateConfidence_def inUnit_def js_min_def js_div_def js_abs_def js_sub_def Let_def)

text \<open>
  The theorem at a best result evaluated 1 and a second result evaluated 0.4: the
  confidence is 0.3. With a single result it is 1. With a best result evaluated plus
  infinity and a second result evaluated 0.4 it is 1.
\<close>

theorem calculateConfidence_value_witness:
  "2 \<le> length [initialProgress, initialProgress\<lparr>evaluation := Fin (2 / 5)\<rparr>]
   \<and> evaluation (initialProgress\<lparr>evaluation := Fin 1\<rparr>) = Fin 1
   \<and> evaluation ([initialProgress, initialProgress\<lparr>evaluation := Fin (2 / 5)\<rparr>] ! 1) = Fin (2 / 5)
   \<and> calculateConfidence (initialProgress\<lparr>evaluation := Fin 1\<rparr>)
        [initialProgress, initialProgress\<lparr>evaluation := Fin (2 / 5)\<rparr>] = Fin (3 / 10)
   \<and> inUnit (calculateConfidence (initialProgress\<lparr>evaluation := Fin 1\<rparr>)
        [initialProgress, initialProgress\<lparr>evaluation := Fin (2 / 5)\<rparr>])
   \<and> length [initialProgress] < 2
   \<and> calculateConfidence (initialProgress\<lparr>evaluation := Fin 1\<rparr>) [initialProgress] = Fin 1
   \<and> js_sub (evaluation (initialProgress\<lparr>evaluation := PInf\<rparr>))
        (evaluation ([initialProgress, initialProgress\<lparr>evaluation := Fin (2 / 5)\<rparr>] ! 1)) = PInf
   \<and> calculateConfidence (initialProgress\<lparr>evaluation := PInf\<rparr>)
        [initialProgress, initialProgress\<lparr>evaluation := Fin (2 / 5)\<rparr>] = Fin 1"
  using calculateConfidence_value [of "[initialProgress, initialProgress\<lparr>evaluation := Fin (2 / 5)\<rparr>]"
      "initialProgress\<lparr>evaluation := Fin 1\<rparr>" 1 "2 / 5"]
    calculateConfidence_value [of "[initialProgress]" "initialProgress\<lparr>evaluation := Fin 1\<rparr>" 0 0]
    calculateConfidence_value [of "[initialProgress, initialProgress\<lparr>evaluation := Fin (2 / 5)\<rparr>]"
      "initialProgress\<lparr>evaluation := PInf\<rparr>" 0 0]
  by (simp add: inUnit_def js_sub_def)

text \<open>
  Claim C8 as stated fails when the difference of the two evaluations is \<open>NaN\<close>. The
  progress line \<^verbatim>\<open>info depth 20 score cp\<close>, which lacks the number, leaves the
  evaluation \<open>NaN\<close>, and the confidence computed from it against two results is \<open>NaN\<close>.
  So is the confidence computed from two evaluations that are both plus infinity.
  \<open>NaN\<close> is not in the interval from 0 to 1.
\<close>

theorem calculateConfidence_nan_counterexample:
  "\<not> inUnit (calculateConfidence (parseInfo initialProgress (splitSpace ''info depth 20 score cp''))
                [initialProgress\<lparr>bestMove := Some ''e2e4''\<rparr>, initialProgress\<lparr>bestMove := Some ''e2e4''\<rparr>])
   \<and> \<not> inUnit (calculateConfidence (initialProgress\<lparr>evaluation := PInf\<rparr>)
                [initialProgress\<lparr>bestMove := Some ''e2e4''\<rparr>,
                 initialProgress\<lparr>bestMove := Some ''e2e4'', evaluation := PInf\<rparr>])"
  by (simp add: calculateConfidence_def inUnit_def js_min_def js_div_def js_abs_def js_sub_def Let_def
        splitSpace_def initialProgress_def elemAt_def parseInt_def)

subsection \<open>Malformed game notation\<close>

text \<open>
  Claim C3, as amended. When the notation library rejects the game notation,
  \<open>analyzeGame\<close> of the engine client catches the failure and returns the empty list of
  analyses, the client unchanged: no error reaches its caller. The caller, \<open>analyzeGame\<close>
  of \<open>GeminiChessAI\<close>, then parses the notation itself, and that failure leads it to the
  empty report.
\<close>

theorem analyzeGame_malformed:
  "ch_loadPgn chess pgn = None \<Longrightarrow>
     analyzeGame chess found io c pgn = (Inr [], c)
     \<and> fst (ai_analyzeGame chess found io engines pgn v) = Inr generateEmptyGameAnalysis"
  by (simp add: analyzeGame_def ai_analyzeGame_def generateFallbackGameAnalysis_def
        split: prod.splits)

text \<open>The theorem at the text \<^verbatim>\<open>1. e4 e9\<close>, which names a square that does not exist.\<close>

theorem analyzeGame_malformed_witness:
  "ch_loadPgn smallChess ''1. e4 e9'' = None
   \<and> analyzeGame smallChess False silent (newStockfishEngine ''17'') ''1. e4 e9''
       = (Inr [], newStockfishEngine ''17'')
   \<and> fst (ai_analyzeGame smallChess False silent Map.empty ''1. e4 e9'' ''17'')
       = Inr generateEmptyGameAnalysis"
proof -
  have h: "ch_loadPgn smallChess ''1. e4 e9'' = None"
    by (simp add: smallChess_def)
  show ?thesis
    using h analyzeGame_malformed [OF h, of False silent "newStockfishEngine ''17''" Map.empty "''17''"]
    by simp
qed

text \<open>
  Claim C3 as stated fails: on text that is not notation, \<open>analyzeGame\<close> of the engine
  client returns normally, with the empty list, and raises no error.
\<close>

theorem analyzeGame_malformed_counterexample:
  "analyzeGame smallChess True silent (newStockfishEngine ''17'') ''not a game''
     = (Inr [], newStockfishEngine ''17'')"
  by (simp add: analyzeGame_def smallChess_def)

subsection \<open>Searching after \<open>terminate\<close>\<close>

lemma terminate_search_reinit:
  assumes "engine c \<noteq> None"
  shows "analyzePosition found arr (terminate c) fenStr d t
           = analyzePosition found arr (initialize found (terminate c)) fenStr d t"
proof (cases found)
  case True
  then show ?thesis
    using assms by (simp add: analyzePosition_def terminate_def initialize_def postMessage_def)
next
  case False
  then have "initialize found (terminate c) = terminate c"
    using assms by (simp add: terminate_def initialize_def postMessage_def)
  then show ?thesis by simp
qed

lemma analyzePosition_returns:
  assumes "engineAvailable found c"
  shows "\<exists>r c1. analyzePosition found arr c fenStr d t = (Inr r, c1)"
proof -
  have "engine (if \<not> isReady c then initialize found c else c) \<noteq> None"
    using assms by (auto simp: engineAvailable_def initialize_def postMessage_def split: if_splits)
  then show ?thesis
    by (simp add: analyzePosition_def Let_def split: prod.splits)
qed

lemma analyzePosition_raises:
  assumes "\<not> engineAvailable found c"
  shows "fst (analyzePosition found arr c fenStr d t) = Inl TypeError"
proof -
  have "engine (if \<not> isReady c then initialize found c else c) = None"
    using assms by (cases "engine c") (auto simp: engineAvailable_def initialize_def split: if_splits)
  then show ?thesis
    by (simp add: analyzePosition_def Let_def)
qed

text \<open>
  Claim C5, as amended. On a client that holds a worker, \<open>terminate\<close> posts \<^verbatim>\<open>quit\<close>
  and marks the client not ready; on a client without a worker it changes nothing.
  Calling it again leaves the readiness and the worker as the first call left them. A
  search after \<open>terminate\<close> does not fail because of it: the search first runs
  \<open>initialize\<close> again, so it behaves as a search on the re-initialised client, and on a
  client that held a worker it returns a result.
\<close>

theorem terminate_then_search:
  "(engine c \<noteq> None \<longrightarrow>
      \<not> isReady (terminate c) \<and> posted (terminate c) = posted c @ [''quit''])
   \<and> (engine c = None \<longrightarrow> terminate c = c)
   \<and> engine (terminate c) = engine c
   \<and> isReady (terminate (terminate c)) = isReady (terminate c)
   \<and> engine (terminate (terminate c)) = engine (terminate c)
   \<and> (engine c \<noteq> None \<longrightarrow>
        analyzePosition found arr (terminate c) fenStr d t
          = analyzePosition found arr (initialize found (terminate c)) fenStr d t)
   \<and> (engine c \<noteq> None \<longrightarrow>
        (\<exists>r c1. analyzePosition found arr (terminate c) fenStr d t = (Inr r, c1)))"
proof -
  have avail: "engine c \<noteq> None \<Longrightarrow> engineAvailable found (terminate c)"
    by (simp add: engineAvailable_def terminate_def postMessage_def)
  show ?thesis
    using terminate_search_reinit [of c found arr fenStr d t]
      analyzePosition_returns [OF avail, of arr fenStr d t]
    by (auto simp: terminate_def postMessage_def)
qed

text \<open>
  The theorem at a client that was initialised with an engine, then terminated, in an
  environment where the constructor is no longer found and the worker stays silent: the
  search still returns a result.
\<close>

theorem terminate_then_search_witness:
  "engine (initialize True (newStockfishEngine ''17'')) \<noteq> None
   \<and> \<not> isReady (terminate (initialize True (newStockfishEngine ''17'')))
   \<and> (\<exists>r c1. analyzePosition False [] (terminate (initialize True (newStockfishEngine ''17'')))
                 startFen 20 10000 = (Inr r, c1))"
proof -
  have e: "engine (initialize True (newStockfishEngine ''17'')) \<noteq> None"
    by (simp add: initialize_def newStockfishEngine_def postMessage_def)
  show ?thesis
    using e terminate_then_search [of "initialize True (newStockfishEngine ''17'')" False "[]" startFen 20 10000]
    by blast
qed

text \<open>
  Claim C5 as stated fails: a search on a terminated client, with the constructor found
  and the engine answering \<^verbatim>\<open>bestmove e2e4\<close> after 5 ms, returns that move; no error
  is raised.
\<close>

theorem search_after_terminate_counterexample:
  "fst (analyzePosition True [(5, ''bestmove e2e4'')]
          (terminate (initialize True (newStockfishEngine ''17''))) startFen 20 10000)
     = Inr \<lparr>bestMove = Some ''e2e4'', evaluation = Fin 0, depth = Fin 0, nodes = Fin 0,
            time = 5, pv = [], mate = None\<rparr>"
  by (simp add: analyzePosition_def terminate_def initialize_def newStockfishEngine_def
        postMessage_def initialProgress_def startsWith_def splitSpace_def elemAt_def Let_def)

subsection \<open>The fallback analysis\<close>

lemma foldl_countPiece:
  "foldl countPiece (w, b) sqs =
     (w + sum_list (map (\<lambda>p. materialValues (ptype p))
                     (filter (\<lambda>p. color p = White) (List.map_filter (\<lambda>sq. sq) sqs))),
      b + sum_list (map (\<lambda>p. materialValues (ptype p))
                     (filter (\<lambda>p. color p = Black) (List.map_filter (\<lambda>sq. sq) sqs))))"
proof (induction sqs arbitrary: w b)
  case Nil
  then show ?case by (simp add: map_filter_simps)
next
  case (Cons sq sqs)
  show ?case
  proof (cases sq)
    case None
    then show ?thesis using Cons.IH by (simp add: countPiece_def map_filter_simps)
  next
    case (Some p)
    then show ?thesis
      using Cons.IH by (cases "color p") (simp_all add: countPiece_def map_filter_simps)
  qed
qed

lemma foldl_rows: "foldl (\<lambda>wb row. foldl f wb row) a rows = foldl f a (concat rows)"
  by (induction rows arbitrary: a) simp_all

lemma calculateMaterial_balance:
  "fst (calculateMaterial brd) - snd (calculateMaterial brd) = materialBalance brd"
  by (simp add: calculateMaterial_def foldl_rows foldl_countPiece materialBalance_def
        sideMaterial_def piecesOf_def)

lemma startBoard_material: "calculateMaterial (fenBoard startFen) = (39, 39)"
  by code_simp

lemma getEngine_unavailable:
  assumes "engineUnavailable found engines v"
  shows "\<not> engineAvailable found (fst (getEngine found engines v))"
  using assms
  by (auto simp: engineUnavailable_def engineAvailable_def getEngine_def Let_def initialize_def
        newStockfishEngine_def split: option.splits)

lemma generateFallbackAnalysis_fields:
  assumes "ch_load chess fenStr = Some pos"
  shows "\<exists>s. generateFallbackAnalysis chess rnd fenStr = Inr s
            \<and> confidence s = Fin (3 / 10)
            \<and> AIMoveSuggestion.evaluation s = Fin (of_int (materialBalance (ch_board chess pos)))"
  using assms
  by (simp add: generateFallbackAnalysis_def Let_def calculateMaterial_balance del: of_int_diff)

lemma ai_analyzePosition_unavailable:
  assumes "engineUnavailable found engines v"
  shows "fst (ai_analyzePosition chess found io rnd engines fenStr d v)
           = generateFallbackAnalysis chess rnd fenStr"
proof -
  obtain e0 engines1 where g: "getEngine found engines v = (e0, engines1)"
    by (cases "getEngine found engines v")
  have "\<not> engineAvailable found e0"
    using getEngine_unavailable [OF assms] g by simp
  then have "fst (analyzePosition found (io 0) e0 fenStr d 10000) = Inl TypeError"
    by (rule analyzePosition_raises)
  then obtain e1 where "analyzePosition found (io 0) e0 fenStr d 10000 = (Inl TypeError, e1)"
    by (cases "analyzePosition found (io 0) e0 fenStr d 10000") simp
  with g show ?thesis
    by (simp add: ai_analyzePosition_def)
qed

text \<open>
  Claim C4, as amended. When no engine can be had and the notation library accepts the
  FEN, \<open>analyzePosition\<close> of \<open>GeminiChessAI\<close> raises no error: it returns the fallback
  result, whose confidence is exactly 0.3 and whose evaluation is the static material
  balance (pawn 1, knight 3, bishop 3, rook 5, queen 9, king 0, summed per side, White
  minus Black); on the board of the standard starting position that evaluation is 0.
  When the library rejects the FEN, the fallback raises the library's error to the
  caller.
\<close>

theorem fallback_when_engine_unavailable:
  assumes "engineUnavailable found engines v"
  shows "(ch_load chess fenStr = Some pos \<longrightarrow>
           (\<exists>s. fst (ai_analyzePosition chess found io rnd engines fenStr d v) = Inr s
              \<and> confidence s = Fin (3 / 10)
              \<and> AIMoveSuggestion.evaluation s = Fin (of_int (materialBalance (ch_board chess pos)))
              \<and> (ch_board chess pos = fenBoard startFen \<longrightarrow> AIMoveSuggestion.evaluation s = Fin 0)))
         \<and> (ch_load chess fenStr = None \<longrightarrow>
              fst (ai_analyzePosition chess found io rnd engines fenStr d v) = Inl ChessError)"
proof -
  have "materialBalance (fenBoard startFen) = 0"
    using calculateMaterial_balance [of "fenBoard startFen"] by (simp add: startBoard_material)
  then show ?thesis
    unfolding ai_analyzePosition_unavailable [OF assms]
    using generateFallbackAnalysis_fields [of chess fenStr pos rnd]
    by (auto simp: generateFallbackAnalysis_def)
qed

text \<open>
  The theorem at the standard starting position, depth 1, an empty pool and no
  constructor to be found: confidence 0.3 and evaluation 0.
\<close>

theorem fallback_when_engine_unavailable_witness:
  "engineUnavailable False Map.empty ''17'' \<and> ch_load smallChess startFen = Some []
   \<and> ch_board smallChess [] = fenBoard startFen
   \<and> (\<exists>s. fst (ai_analyzePosition smallChess False silent (7 / 10) Map.empty startFen 1 ''17'') = Inr s
          \<and> confidence s = Fin (3 / 10) \<and> AIMoveSuggestion.evaluation s = Fin 0)"
proof -
  have u: "engineUnavailable False Map.empty ''17''"
    by (simp add: engineUnavailable_def)
  have l: "ch_load smallChess startFen = Some []" and b: "ch_board smallChess [] = fenBoard startFen"
    by (simp_all add: smallChess_def)
  show ?thesis
    using u l b fallback_when_engine_unavailable [OF u, of smallChess startFen "[]" silent "7 / 10" 1]
    by auto
qed

text \<open>
  Claim C4 as stated fails on a FEN that the library rejects. The text below, which
  the user interface uses for a cleared board, has seven ranks instead of eight; with
  no engine to be had, the fallback raises the library's error to the caller.
\<close>

theorem fallback_rejected_fen_counterexample:
  "engineUnavailable False Map.empty ''17''
   \<and> fst (ai_analyzePosition smallChess False silent (7 / 10) Map.empty
            ''rnbqkbnr/pppppppp/8/8/8/PPPPPPPP/RNBQKBNR w KQkq - 0 1'' 20 ''17'') = Inl ChessError"
  by (simp add: engineUnavailable_def ai_analyzePosition_def getEngine_def initialize_def
        newStockfishEngine_def analyzePosition_def generateFallbackAnalysis_def smallChess_def
        startFen_def Let_def)


subsection \<open>Progress events\<close>

























subsection \<open>A search that ends without a best move\<close>




















subsection \<open>One entry per ply\<close>

lemma analyzePosition_available:
  assumes "engineAvailable found c"
  shows "\<exists>r c1. analyzePosition found arr c fenStr d t = (Inr r, c1) \<and> engineAvailable found c1"
proof -
  let ?c1 = "if \<not> isReady c then initialize found c else c"
  have e: "engine ?c1 \<noteq> None"
    using assms by (auto simp: engineAvailable_def initialize_def postMessage_def split: if_splits)
  have a: "engineAvailable found ?c1"
    using assms by (auto simp: engineAvailable_def initialize_def postMessage_def split: if_splits)
  have p: "engineAvailable found (postMessage x cmd) = engineAvailable found x" for x cmd
    by (simp add: engineAvailable_def postMessage_def)
  show ?thesis
    using e a by (auto simp: analyzePosition_def Let_def p split: prod.splits)
qed






subsection \<open>The sweep for alternative moves\<close>

lemma commandsFor_append: "commandsFor f d (xs @ ys) = (commandsFor f d xs \<and> commandsFor f d ys)"
  by (simp add: commandsFor_def)

lemma goCount_append: "goCount (xs @ ys) = goCount xs + goCount ys"
  by (simp add: goCount_def)

lemma searchesStarted_goCount: "searchesStarted c = goCount (posted c)"
  by (simp add: searchesStarted_def goCount_def)

lemma initialize_posted:
  "\<exists>new. posted (initialize found c) = posted c @ new \<and> commandsFor f d new \<and> goCount new = 0"
  by (simp add: initialize_def postMessage_def commandsFor_def goCount_def startsWith_def)

lemma analyzePosition_posted:
  "\<exists>new. posted (snd (analyzePosition found arr c f d t)) = posted c @ new
         \<and> commandsFor f d new \<and> goCount new \<le> 1"
proof -
  let ?c1 = "if \<not> isReady c then initialize found c else c"
  obtain n1 where n1: "posted ?c1 = posted c @ n1" "commandsFor f d n1" "goCount n1 = 0"
    using initialize_posted [of found c f d]
    by (cases "isReady c") (auto simp: commandsFor_def goCount_def)
  show ?thesis
  proof (cases "engine ?c1 = None")
    case True
    then have "snd (analyzePosition found arr c f d t) = ?c1"
      by (simp add: analyzePosition_def Let_def)
    then show ?thesis using n1 by (intro exI [of _ n1]) simp
  next
    case False
    obtain w t' acc where l: "listen d t initialProgress arr = (w, t', acc)"
      by (cases "listen d t initialProgress arr") auto
    let ?n2 = "[''position fen '' @ f, ''go depth '' @ showInt d] @ (if w = BestMove then [] else [''stop''])"
    have "posted (snd (analyzePosition found arr c f d t)) = posted ?c1 @ ?n2"
      using False l by (simp add: analyzePosition_def Let_def postMessage_def)
    moreover have "commandsFor f d ?n2" "goCount ?n2 = 1"
      by (simp_all add: commandsFor_def goCount_def startsWith_def)
    ultimately show ?thesis
      using n1 by (intro exI [of _ "n1 @ ?n2"]) (simp add: commandsFor_append goCount_append)
  qed
qed


lemma getTopMovesLoop_props:
  "\<exists>new. posted (snd (getTopMovesLoop chess found io f k i ms c)) = posted c @ new
         \<and> commandsFor f 15 new \<and> goCount new \<le> k
         \<and> (\<forall>ms1. fst (getTopMovesLoop chess found io f k i ms c) = Inr ms1 \<longrightarrow>
               (\<exists>ys. ms1 = ms @ ys \<and> length ys \<le> k \<and> (\<forall>m\<in>set ys. truthyStr (bestMove m))))"
proof (induction k arbitrary: i ms c)
  case 0
  show ?case by (intro exI [of _ "[]"]) (simp add: commandsFor_def goCount_def)
next
  case (Suc k)
  obtain r c1 where ap: "analyzePosition found (io i) c f 15 5000 = (r, c1)"
    by (cases "analyzePosition found (io i) c f 15 5000")
  from analyzePosition_posted [of found "io i" c f 15 5000] obtain n1 where
    n1: "posted c1 = posted c @ n1" "commandsFor f 15 n1" "goCount n1 \<le> 1"
    by (auto simp: ap)
  define cmd where "cmd = ''position fen '' @ f"
  have cmd: "commandsFor f 15 (cmd # xs) = commandsFor f 15 xs" "goCount (cmd # xs) = goCount xs" for xs
    by (simp_all add: cmd_def commandsFor_def goCount_def startsWith_def)
  show ?case
  proof (cases r)
    case (Inl e)
    then have "getTopMovesLoop chess found io f (Suc k) i ms c = (Inl e, c1)"
      by (simp add: ap)
    then show ?thesis using n1 by (intro exI [of _ n1]) simp
  next
    case (Inr a)
    show ?thesis
    proof (cases "truthyStr (bestMove a)")
      case False
      then have eq: "getTopMovesLoop chess found io f (Suc k) i ms c
                      = getTopMovesLoop chess found io f k (Suc i) ms c1"
        by (simp add: ap Inr)
      from Suc.IH [of "Suc i" ms c1] obtain n2 where
        n2: "posted (snd (getTopMovesLoop chess found io f k (Suc i) ms c1)) = posted c1 @ n2"
            "commandsFor f 15 n2" "goCount n2 \<le> k"
            "\<forall>ms1. fst (getTopMovesLoop chess found io f k (Suc i) ms c1) = Inr ms1 \<longrightarrow>
               (\<exists>ys. ms1 = ms @ ys \<and> length ys \<le> k \<and> (\<forall>m\<in>set ys. truthyStr (bestMove m)))"
        by blast
      have "\<forall>ms1. fst (getTopMovesLoop chess found io f k (Suc i) ms c1) = Inr ms1 \<longrightarrow>
               (\<exists>ys. ms1 = ms @ ys \<and> length ys \<le> Suc k \<and> (\<forall>m\<in>set ys. truthyStr (bestMove m)))"
        using n2(4) by (meson le_SucI)
      then show ?thesis
        unfolding eq using n1 n2(1,2,3)
        by (intro exI [of _ "n1 @ n2"]) (simp add: commandsFor_append goCount_append)
    next
      case True
      show ?thesis
      proof (cases "ch_load chess f")
        case None
        then have "getTopMovesLoop chess found io f (Suc k) i ms c = (Inl ChessError, c1)"
          using True by (simp add: ap Inr)
        then show ?thesis using n1 by (intro exI [of _ n1]) simp
      next
        case (Some pos)
        show ?thesis
        proof (cases "ch_move chess pos (case bestMove a of Some bm \<Rightarrow> bm | None \<Rightarrow> [])")
          case None
          then have "getTopMovesLoop chess found io f (Suc k) i ms c = (Inr (ms @ [a]), c1)"
            using True Some by (simp add: ap Inr)
          then show ?thesis using n1 True by (intro exI [of _ n1]) simp
        next
          case (Some pos1)
          then have eq: "getTopMovesLoop chess found io f (Suc k) i ms c
                          = getTopMovesLoop chess found io f k (Suc i) (ms @ [a]) (postMessage c1 cmd)"
            using True \<open>ch_load chess f = Some pos\<close> by (simp add: ap Inr cmd_def)
          from Suc.IH [of "Suc i" "ms @ [a]" "postMessage c1 cmd"] obtain n2 where
            n2: "posted (snd (getTopMovesLoop chess found io f k (Suc i) (ms @ [a]) (postMessage c1 cmd)))
                   = posted (postMessage c1 cmd) @ n2"
                "commandsFor f 15 n2" "goCount n2 \<le> k"
                "\<forall>ms1. fst (getTopMovesLoop chess found io f k (Suc i) (ms @ [a]) (postMessage c1 cmd)) = Inr ms1 \<longrightarrow>
                   (\<exists>ys. ms1 = (ms @ [a]) @ ys \<and> length ys \<le> k \<and> (\<forall>m\<in>set ys. truthyStr (bestMove m)))"
            by blast
          have res: "\<forall>ms1. fst (getTopMovesLoop chess found io f k (Suc i) (ms @ [a]) (postMessage c1 cmd)) = Inr ms1 \<longrightarrow>
                   (\<exists>ys. ms1 = ms @ ys \<and> length ys \<le> Suc k \<and> (\<forall>m\<in>set ys. truthyStr (bestMove m)))"
          proof (intro allI impI)
            fix ms1
            assume "fst (getTopMovesLoop chess found io f k (Suc i) (ms @ [a]) (postMessage c1 cmd)) = Inr ms1"
            with n2(4) obtain ys where
              ys: "ms1 = (ms @ [a]) @ ys" "length ys \<le> k" "\<forall>m\<in>set ys. truthyStr (bestMove m)"
              by blast
            show "\<exists>ys. ms1 = ms @ ys \<and> length ys \<le> Suc k \<and> (\<forall>m\<in>set ys. truthyStr (bestMove m))"
              using ys True by (intro exI [of _ "a # ys"]) simp
          qed
          have p: "posted (postMessage c1 cmd) = posted c @ n1 @ [cmd]"
            using n1(1) by (simp add: postMessage_def)
          show ?thesis
            unfolding eq using n1(2,3) n2(1,2,3) cmd res
            by (intro exI [of _ "n1 @ [cmd] @ n2"]) (simp add: p commandsFor_append goCount_append)
        qed
      qed
    qed
  qed
qed

lemma getTopMovesLoop_returns:
  assumes "engineAvailable found c" and "ch_load chess f \<noteq> None"
  shows "\<exists>ms1 c1. getTopMovesLoop chess found io f k i ms c = (Inr ms1, c1)"
  using assms(1)
proof (induction k arbitrary: i ms c)
  case 0
  then show ?case by simp
next
  case (Suc k)
  from analyzePosition_available [OF Suc.prems, of "io i" f 15 5000] obtain a c1 where
    ap: "analyzePosition found (io i) c f 15 5000 = (Inr a, c1)" and av: "engineAvailable found c1"
    by blast
  have "engineAvailable found (postMessage c1 cmd) = engineAvailable found c1" for cmd
    by (simp add: engineAvailable_def postMessage_def)
  then have av2: "engineAvailable found (postMessage c1 cmd)" for cmd
    using av by simp
  obtain pos where pos: "ch_load chess f = Some pos"
    using assms(2) by auto
  show ?case
  proof (cases "truthyStr (bestMove a)")
    case False
    then show ?thesis using Suc.IH [OF av, where i = "Suc i" and ms = ms] by (simp add: ap)
  next
    case True
    show ?thesis
    proof (cases "ch_move chess pos (case bestMove a of Some bm \<Rightarrow> bm | None \<Rightarrow> [])")
      case None
      then show ?thesis using True pos by (simp add: ap)
    next
      case (Some pos1)
      then show ?thesis
        using True pos Suc.IH [OF av2 [of "''position fen '' @ f"], where i = "Suc i" and ms = "ms @ [a]"]
        by (simp add: ap)
    qed
  qed
qed

lemma sameBestMove_run:
  "fst (getTopMoves smallChess True sameBestMove (newStockfishEngine ''17'') startFen 2)
     = Inr [\<lparr>bestMove = Some ''e2e4'', evaluation = Fin 0, depth = Fin 0, nodes = Fin 0,
              time = 5, pv = [], mate = None\<rparr>,
            \<lparr>bestMove = Some ''e2e4'', evaluation = Fin 0, depth = Fin 0, nodes = Fin 0,
              time = 5, pv = [], mate = None\<rparr>]"
proof -
  have two: "(2::nat) = Suc (Suc 0)" by simp
  show ?thesis
    unfolding getTopMoves_def two
    by (simp add: analyzePosition_def initialize_def newStockfishEngine_def postMessage_def
          sameBestMove_def initialProgress_def startsWith_def splitSpace_def elemAt_def truthyStr_def
          smallChess_def Let_def)
qed

text \<open>
  Claim C10, as amended. For every FEN and every count \<open>n\<close>, \<open>getTopMoves\<close> starts at
  most \<open>n\<close> searches; every \<^verbatim>\<open>position\<close> command it posts is for the original FEN and
  every \<^verbatim>\<open>go\<close> command is \<^verbatim>\<open>go depth 15\<close>, so no search excludes an earlier best
  move. Whenever it returns, the list has at most \<open>n\<close> results and each of them has a
  non-empty best move. It returns whenever the client has an engine and the notation
  library accepts the FEN. The entries need not be distinct: with an engine that
  answers every search with \<^verbatim>\<open>bestmove e2e4\<close>, a sweep of two iterations from the
  starting position returns the same result twice.
\<close>

theorem getTopMoves_sweep:
  "searchesStarted (snd (getTopMoves chess found io c fenStr n)) \<le> searchesStarted c + n
   \<and> (\<exists>new. posted (snd (getTopMoves chess found io c fenStr n)) = posted c @ new
          \<and> commandsFor fenStr 15 new)
   \<and> (\<forall>ms. fst (getTopMoves chess found io c fenStr n) = Inr ms \<longrightarrow>
         length ms \<le> n \<and> (\<forall>m\<in>set ms. truthyStr (bestMove m)))
   \<and> (engineAvailable found c \<and> ch_load chess fenStr \<noteq> None \<longrightarrow>
         (\<exists>ms c1. getTopMoves chess found io c fenStr n = (Inr ms, c1)))
   \<and> fst (getTopMoves smallChess True sameBestMove (newStockfishEngine ''17'') startFen 2)
       = Inr [\<lparr>bestMove = Some ''e2e4'', evaluation = Fin 0, depth = Fin 0, nodes = Fin 0,
                time = 5, pv = [], mate = None\<rparr>,
              \<lparr>bestMove = Some ''e2e4'', evaluation = Fin 0, depth = Fin 0, nodes = Fin 0,
                time = 5, pv = [], mate = None\<rparr>]"
proof -
  from getTopMovesLoop_props [of chess found io fenStr n 0 "[]" c] obtain new where
    new: "posted (snd (getTopMoves chess found io c fenStr n)) = posted c @ new"
         "commandsFor fenStr 15 new" "goCount new \<le> n"
         "\<forall>ms1. fst (getTopMoves chess found io c fenStr n) = Inr ms1 \<longrightarrow>
            (\<exists>ys. ms1 = [] @ ys \<and> length ys \<le> n \<and> (\<forall>m\<in>set ys. truthyStr (bestMove m)))"
    unfolding getTopMoves_def by blast
  have a: "searchesStarted (snd (getTopMoves chess found io c fenStr n)) \<le> searchesStarted c + n"
    using new(1,3) by (simp add: searchesStarted_goCount goCount_append)
  have b: "\<exists>new. posted (snd (getTopMoves chess found io c fenStr n)) = posted c @ new
          \<and> commandsFor fenStr 15 new"
    using new(1,2) by blast
  have c: "\<forall>ms. fst (getTopMoves chess found io c fenStr n) = Inr ms \<longrightarrow>
         length ms \<le> n \<and> (\<forall>m\<in>set ms. truthyStr (bestMove m))"
    using new(4) by auto
  have d: "engineAvailable found c \<and> ch_load chess fenStr \<noteq> None \<longrightarrow>
         (\<exists>ms c1. getTopMoves chess found io c fenStr n = (Inr ms, c1))"
    unfolding getTopMoves_def using getTopMovesLoop_returns [of found c chess fenStr io n 0 "[]"] by blast
  show ?thesis
    using a b c d sameBestMove_run by blast
qed

text \<open>
  Claim C10 as stated fails when no engine can be had: the first search raises a
  \<^verbatim>\<open>TypeError\<close>, which \<open>getTopMoves\<close> passes on, so no list is returned.
\<close>

theorem getTopMoves_no_engine_counterexample:
  "fst (getTopMoves smallChess False silent (newStockfishEngine ''17'') startFen 3) = Inl TypeError"
proof -
  have three: "(3::nat) = Suc (Suc (Suc 0))" by simp
  show ?thesis
    unfolding getTopMoves_def three
    by (simp add: analyzePosition_def initialize_def newStockfishEngine_def Let_def)
qed


text \<open>
  The theorem at the starting position, \<open>n = 2\<close> and an engine that answers every
  search with \<^verbatim>\<open>bestmove e2e4\<close>.
\<close>

theorem getTopMoves_sweep_witness:
  "engineAvailable True (newStockfishEngine ''17'')
   \<and> ch_load smallChess startFen \<noteq> None
   \<and> (\<exists>ms c1. getTopMoves smallChess True sameBestMove (newStockfishEngine ''17'') startFen 2 = (Inr ms, c1)
          \<and> length ms \<le> 2 \<and> list_all (\<lambda>m. truthyStr (bestMove m)) ms)
   \<and> searchesStarted (snd (getTopMoves smallChess True sameBestMove (newStockfishEngine ''17'') startFen 2))
        \<le> searchesStarted (newStockfishEngine ''17'') + 2"
proof -
  have e: "engineAvailable True (newStockfishEngine ''17'')"
    by (simp add: engineAvailable_def newStockfishEngine_def)
  have l: "ch_load smallChess startFen \<noteq> None"
    by (simp add: smallChess_def)
  note t = getTopMoves_sweep [of smallChess True sameBestMove "newStockfishEngine ''17''" startFen 2]
  from t e l obtain ms c1 where
    r: "getTopMoves smallChess True sameBestMove (newStockfishEngine ''17'') startFen 2 = (Inr ms, c1)"
    by blast
  from t r have "length ms \<le> 2 \<and> (\<forall>m\<in>set ms. truthyStr (bestMove m))"
    by (simp add: truthyStr_def)
  then have "length ms \<le> 2 \<and> list_all (\<lambda>m. truthyStr (bestMove m)) ms"
    by (simp add: list_all_iff)
  then show ?thesis
    using e l r t by blast
qed

end
